theory Spec2Isabelle
  imports Main "HOL-Library.Sublist"
begin

section \<open>Strings and optional values of the detector\<close>

text \<open>
  The value of a key of \<open>Record<string, string | undefined>\<close> is a string or
  \<open>undefined\<close>. A string is a list of code units; the model takes the code units
  \<open>U+0000\<close> to \<open>U+00FF\<close>, one \<open>char\<close> each, which holds every literal of
  \<open>src/utils/unicode.ts\<close>.
\<close>

datatype js_value = Undefined | Str string

type_synonym env = "string \<rightharpoonup> js_value"

text \<open>
  The property read \<open>env.KEY\<close>: a key that the object does not have reads as
  \<open>undefined\<close>, as does a key bound to \<open>undefined\<close>.
\<close>

definition env_get :: "env \<Rightarrow> string \<Rightarrow> js_value" where
  "env_get env k = (case env k of None \<Rightarrow> Undefined | Some v \<Rightarrow> v)"

text \<open>
  \<open>v || ""\<close>: \<open>undefined\<close> and the empty string are the two falsy values of the
  type, and both give the right operand.
\<close>

definition or_empty :: "js_value \<Rightarrow> string" where
  "or_empty v = (case v of Undefined \<Rightarrow> [] | Str s \<Rightarrow> (if s = [] then [] else s))"

text \<open>
  \<open>String.prototype.toLowerCase\<close> on this range maps \<open>A\<close>..\<open>Z\<close> and the
  capital letters \<open>U+00C0\<close>..\<open>U+00DE\<close> (without the sign \<open>U+00D7\<close>) to the code
  unit 32 above, and leaves every other code unit alone.
\<close>

definition toLowerCase_char :: "char \<Rightarrow> char" where
  "toLowerCase_char c =
     (let n = (of_char c :: nat)
      in if (65 \<le> n \<and> n \<le> 90) \<or> (192 \<le> n \<and> n \<le> 222 \<and> n \<noteq> 215)
         then char_of (n + 32) else c)"

definition toLowerCase :: "string \<Rightarrow> string" where
  "toLowerCase s = map toLowerCase_char s"

text \<open>
  \<open>s.includes(p)\<close>: the search tries every start position of \<open>s\<close> from the left,
  the end of the string included (where only the empty \<open>p\<close> matches).
\<close>

fun str_includes :: "string \<Rightarrow> string \<Rightarrow> bool" where
  "str_includes [] p = (p = [])"
| "str_includes (c # cs) p = (prefix p (c # cs) \<or> str_includes cs p)"

section \<open>The Unicode support detector\<close>

definition isUnicodeSupported :: "env \<Rightarrow> bool" where
  "isUnicodeSupported env =
     (let lang = or_empty (env_get env ''LANG'');
          hasUtf8Locale = str_includes (toLowerCase lang) ''utf-8'';
          colorterm = or_empty (env_get env ''COLORTERM'');
          termProgram = or_empty (env_get env ''TERM_PROGRAM'');
          hasModernTerminal =
            (str_includes colorterm ''truecolor'' \<or>
             str_includes colorterm ''24bit'' \<or>
             str_includes termProgram ''vscode'' \<or>
             str_includes termProgram ''iTerm.app'' \<or>
             str_includes termProgram ''Terminal.app'');
          platform = or_empty (env_get env ''platform'');
          isWindows = (platform = ''win32'')
      in hasUtf8Locale \<or> hasModernTerminal \<or> \<not> isWindows)"

subsection \<open>The algorithm as the specification words it\<close>

text \<open>
  "Read \<open>KEY\<close> (default empty string)": the string bound to the key, and the empty
  string where the key is absent or carries no string.
\<close>

definition read_key :: "env \<Rightarrow> string \<Rightarrow> string" where
  "read_key env k = (case env k of Some (Str s) \<Rightarrow> s | _ \<Rightarrow> [])"

text \<open>
  The four conditions of section 4.2, with "contains" as the substring relation
  \<^const>\<open>sublist\<close> of the library.
\<close>

definition declares_utf8 :: "env \<Rightarrow> bool" where
  "declares_utf8 env = sublist ''utf-8'' (toLowerCase (read_key env ''LANG''))"

definition colorterm_modern :: "env \<Rightarrow> bool" where
  "colorterm_modern env =
     (sublist ''truecolor'' (read_key env ''COLORTERM'') \<or>
      sublist ''24bit'' (read_key env ''COLORTERM''))"

definition term_program_modern :: "env \<Rightarrow> bool" where
  "term_program_modern env =
     (sublist ''vscode'' (read_key env ''TERM_PROGRAM'') \<or>
      sublist ''iTerm.app'' (read_key env ''TERM_PROGRAM'') \<or>
      sublist ''Terminal.app'' (read_key env ''TERM_PROGRAM''))"

definition reported_windows :: "env \<Rightarrow> bool" where
  "reported_windows env = (read_key env ''platform'' = ''win32'')"

text \<open>Steps 1 to 4 as the sequential chain of "else".\<close>

definition unicode_steps :: "env \<Rightarrow> bool" where
  "unicode_steps env =
     (if declares_utf8 env then True
      else if colorterm_modern env then True
      else if term_program_modern env then True
      else if reported_windows env then False
      else True)"

text \<open>The "net effect" sentence: one flat disjunction.\<close>

definition unicode_net_effect :: "env \<Rightarrow> bool" where
  "unicode_net_effect env =
     (declares_utf8 env \<or> (colorterm_modern env \<or> term_program_modern env)
      \<or> \<not> reported_windows env)"

section \<open>Variant registry and theme\<close>

text \<open>
  Modelled from the spec: the type \<open>StatusMessageVariant\<close> of
  \<open>src/types/status-message-types.ts\<close>, which is not among the sources; section 3
  gives it as the closed enumeration of four tags, and the keys of
  \<open>colorByVariant\<close> and \<open>iconByVariant\<close> are these four.
\<close>

datatype StatusMessageVariant = Info | Success | Error | Warning

text \<open>
  A style record (\<open>BoxProps\<close>, \<open>TextProps\<close>) is an object literal: the list of its
  properties in the order they are written, each a number or a string.
\<close>

datatype prop_value = PNum int | PStr string

type_synonym style = "(string \<times> prop_value) list"

fun colorByVariant :: "StatusMessageVariant \<Rightarrow> string" where
  "colorByVariant Success = ''green''"
| "colorByVariant Error = ''red''"
| "colorByVariant Warning = ''yellow''"
| "colorByVariant Info = ''blue''"

record StatusMessageThemeProps =
  variant :: StatusMessageVariant

text \<open>
  The four style slots of the theme. In the theme they hold style functions, after
  resolution style records, so the slot types are parameters: \<open>'f\<close> for
  \<open>container\<close>, \<open>iconContainer\<close> and \<open>message\<close>, \<open>'g\<close> for \<open>icon\<close>.
\<close>

record ('f, 'g) style_slots =
  container :: 'f
  iconContainer :: 'f
  icon :: 'g
  message :: 'f

record 'st themed =
  styles :: 'st

text \<open>
  The three style functions without a parameter can still be called with an argument,
  which they never read: their argument is optional, \<open>None\<close> for the call \<open>f()\<close>.
  \<open>icon\<close> reads \<open>props.variant\<close> and needs its argument.
\<close>

type_synonym theme_styles =
  "(StatusMessageThemeProps option \<Rightarrow> style, StatusMessageThemeProps \<Rightarrow> style) style_slots"

type_synonym component_theme = "theme_styles themed"

definition statusMessageTheme :: component_theme where
  "statusMessageTheme =
     \<lparr>styles =
        \<lparr>container = (\<lambda>_. [(''columnGap'', PNum 1)]),
         iconContainer = (\<lambda>_. [(''flexShrink'', PNum 0)]),
         icon = (\<lambda>props. [(''color'', PStr (colorByVariant (StatusMessageThemeProps.variant props)))]),
         message = (\<lambda>_. [])\<rparr>\<rparr>"

section \<open>The StatusMessage component\<close>

text \<open>
  The component forwards strings and never inspects them, so their type is the
  parameter \<open>'s\<close>: a glyph of any script is a value of it. A renderable value is a
  string or an element of one of the two primitives of the framework, \<open>Box\<close> and
  \<open>Text\<close>, with the properties spread into it and its children in order.
\<close>

datatype 's ReactNode =
    RStr 's
  | Box style "'s ReactNode list"
  | Text style "'s ReactNode list"

text \<open>
  The symbol set that \<open>useFigures()\<close> returns is injected: the component reads its
  four fields \<open>info\<close>, \<open>tick\<close>, \<open>cross\<close> and \<open>warning\<close>; the record is
  extensible, a symbol set may hold more.
\<close>

record 's figures =
  info :: 's
  tick :: 's
  cross :: 's
  warning :: 's

record 's StatusMessageProps =
  children :: "'s ReactNode"
  variant :: StatusMessageVariant

text \<open>
  Modelled from the spec: the hook \<open>useComponentTheme\<close> of the package
  \<open>tinky-theme\<close>, which is not among the sources. Section 4.3, step 3: the style
  records are resolved through the theme, "passing \<open>{variant}\<close> into the \<open>icon\<close>
  slot, and no-argument calls for the other three slots"; by section 9 the theme in
  force is an explicit argument (\<open>statusMessageTheme\<close> when the host overrides
  nothing).
\<close>

definition useComponentTheme ::
  "component_theme \<Rightarrow> StatusMessageThemeProps \<Rightarrow> (style, style) style_slots themed" where
  "useComponentTheme theme props =
     \<lparr>styles =
        \<lparr>container = container (styles theme) None,
         iconContainer = iconContainer (styles theme) None,
         icon = icon (styles theme) props,
         message = message (styles theme) None\<rparr>\<rparr>"

fun iconByVariant :: "('s, 'z) figures_scheme \<Rightarrow> StatusMessageVariant \<Rightarrow> 's" where
  "iconByVariant figures Info = info figures"
| "iconByVariant figures Success = tick figures"
| "iconByVariant figures Error = cross figures"
| "iconByVariant figures Warning = warning figures"

definition StatusMessage ::
  "('s, 'z) figures_scheme \<Rightarrow> component_theme \<Rightarrow> 's StatusMessageProps \<Rightarrow> 's ReactNode" where
  "StatusMessage figures theme props =
     (let st = styles (useComponentTheme theme
                 \<lparr>StatusMessageThemeProps.variant = StatusMessageProps.variant props\<rparr>);
          glyph = iconByVariant figures (StatusMessageProps.variant props)
      in Box (container st)
           [Box (iconContainer st) [Text (icon st) [RStr glyph]],
            Text (message st) [children props]])"

text \<open>
  The strings of a render tree in traversal order (an element before its children, the
  children from first to last): what the tree shows, whatever the layout.
\<close>

fun leaves :: "'s ReactNode \<Rightarrow> 's list" where
  "leaves (RStr s) = [s]"
| "leaves (Box st cs) = concat (map leaves cs)"
| "leaves (Text st cs) = concat (map leaves cs)"

section \<open>Auxiliary facts\<close>

lemma str_includes_sublist: "str_includes s p = sublist p s"
  by (induction s) (simp_all add: sublist_Cons_right)

lemma or_empty_env_get: "or_empty (env_get env k) = read_key env k"
  by (simp add: or_empty_def env_get_def read_key_def split: option.split js_value.split)

lemma isUnicodeSupported_conditions:
  "isUnicodeSupported env =
     (declares_utf8 env \<or> colorterm_modern env \<or> term_program_modern env
      \<or> \<not> reported_windows env)"
  by (simp add: isUnicodeSupported_def Let_def str_includes_sublist or_empty_env_get
      declares_utf8_def colorterm_modern_def term_program_modern_def reported_windows_def
      disj_ac)

lemma isUnicodeSupported_read_key:
  assumes "read_key a ''LANG'' = read_key b ''LANG''"
    and "read_key a ''COLORTERM'' = read_key b ''COLORTERM''"
    and "read_key a ''TERM_PROGRAM'' = read_key b ''TERM_PROGRAM''"
    and "read_key a ''platform'' = read_key b ''platform''"
  shows "isUnicodeSupported a = isUnicodeSupported b"
  using assms
  by (simp add: isUnicodeSupported_conditions
      declares_utf8_def colorterm_modern_def term_program_modern_def reported_windows_def)

lemma read_key_blank:
  "read_key (env(k \<mapsto> Str [])) j = read_key (env(k := None)) j"
  "read_key (env(k \<mapsto> Undefined)) j = read_key (env(k := None)) j"
  by (simp_all add: read_key_def)

lemma StatusMessage_tree:
  "StatusMessage figs th \<lparr>children = content, variant = v\<rparr> =
     Box (container (styles th) None)
       [Box (iconContainer (styles th) None)
          [Text (icon (styles th) \<lparr>StatusMessageThemeProps.variant = v\<rparr>)
             [RStr (iconByVariant figs v)]],
        Text (message (styles th) None) [content]]"
  by (simp add: StatusMessage_def useComponentTheme_def)

section \<open>The detector\<close>

text \<open>
  C1: for every env mapping, \<open>isUnicodeSupported\<close> follows the algorithm of section
  4.2: true if the lower-cased \<open>LANG\<close> (default empty string) contains "utf-8"; else
  true if \<open>COLORTERM\<close> contains "truecolor" or "24bit"; else true if
  \<open>TERM_PROGRAM\<close> contains "vscode", "iTerm.app" or "Terminal.app"; else false if
  \<open>platform\<close> (default empty string) equals "win32", and true otherwise.
\<close>

theorem detector_follows_steps: "isUnicodeSupported env = unicode_steps env"
  by (simp add: isUnicodeSupported_conditions unicode_steps_def)

theorem detector_follows_steps_witness:
  "isUnicodeSupported [''platform'' \<mapsto> Str ''win32'', ''TERM_PROGRAM'' \<mapsto> Str ''iTerm.app'']
   \<and> unicode_steps [''platform'' \<mapsto> Str ''win32'', ''TERM_PROGRAM'' \<mapsto> Str ''iTerm.app'']
   \<and> \<not> isUnicodeSupported [''platform'' \<mapsto> Str ''win32'', ''TERM_PROGRAM'' \<mapsto> Str ''iterm.app'']
   \<and> \<not> unicode_steps [''platform'' \<mapsto> Str ''win32'', ''TERM_PROGRAM'' \<mapsto> Str ''iterm.app'']"
proof -
  have yes: "isUnicodeSupported
      [''platform'' \<mapsto> Str ''win32'', ''TERM_PROGRAM'' \<mapsto> Str ''iTerm.app'']"
    by code_simp
  have no: "\<not> isUnicodeSupported
      [''platform'' \<mapsto> Str ''win32'', ''TERM_PROGRAM'' \<mapsto> Str ''iterm.app'']"
    by code_simp
  show ?thesis
    using yes no
      detector_follows_steps
        [of "[''platform'' \<mapsto> Str ''win32'', ''TERM_PROGRAM'' \<mapsto> Str ''iTerm.app'']"]
      detector_follows_steps
        [of "[''platform'' \<mapsto> Str ''win32'', ''TERM_PROGRAM'' \<mapsto> Str ''iterm.app'']"]
    by simp
qed

text \<open>
  C6: for every env mapping, the sequential chain of steps 1 to 4 is the flat
  disjunction: \<open>isUnicodeSupported env\<close> holds if and only if \<open>LANG\<close> declares UTF-8,
  or \<open>COLORTERM\<close> or \<open>TERM_PROGRAM\<close> names a recognised modern terminal, or the
  platform value is not "win32".
\<close>

theorem steps_are_net_effect:
  "unicode_steps env = unicode_net_effect env
   \<and> isUnicodeSupported env = unicode_net_effect env"
  by (simp add: isUnicodeSupported_conditions unicode_steps_def unicode_net_effect_def)

theorem steps_are_net_effect_witness:
  "unicode_net_effect [''platform'' \<mapsto> Str ''win32'', ''LANG'' \<mapsto> Str ''en_US.UTF-8'']
   \<and> unicode_steps [''platform'' \<mapsto> Str ''win32'', ''LANG'' \<mapsto> Str ''en_US.UTF-8'']
   \<and> \<not> unicode_net_effect [''platform'' \<mapsto> Str ''win32'', ''LANG'' \<mapsto> Str ''C'']
   \<and> \<not> unicode_steps [''platform'' \<mapsto> Str ''win32'', ''LANG'' \<mapsto> Str ''C'']"
proof -
  have yes: "isUnicodeSupported
      [''platform'' \<mapsto> Str ''win32'', ''LANG'' \<mapsto> Str ''en_US.UTF-8'']"
    by code_simp
  have no: "\<not> isUnicodeSupported [''platform'' \<mapsto> Str ''win32'', ''LANG'' \<mapsto> Str ''C'']"
    by code_simp
  show ?thesis
    using yes no
      steps_are_net_effect
        [of "[''platform'' \<mapsto> Str ''win32'', ''LANG'' \<mapsto> Str ''en_US.UTF-8'']"]
      steps_are_net_effect [of "[''platform'' \<mapsto> Str ''win32'', ''LANG'' \<mapsto> Str ''C'']"]
    by simp
qed

text \<open>
  C7: for every env mapping whose \<open>platform\<close> value is absent, \<open>undefined\<close>, or any
  string other than "win32", \<open>isUnicodeSupported\<close> returns true whatever the other
  keys hold; in particular it returns true on the empty mapping.
\<close>

theorem not_windows_supported:
  assumes "env ''platform'' = None \<or> env ''platform'' = Some Undefined
           \<or> (\<exists>s. env ''platform'' = Some (Str s) \<and> s \<noteq> ''win32'')"
  shows "isUnicodeSupported env"
proof -
  from assms have "read_key env ''platform'' \<noteq> ''win32''"
    by (auto simp: read_key_def)
  then show ?thesis
    by (simp add: isUnicodeSupported_conditions reported_windows_def)
qed

theorem not_windows_supported_witness:
  "isUnicodeSupported Map.empty
   \<and> isUnicodeSupported [''platform'' \<mapsto> Undefined, ''LANG'' \<mapsto> Str ''C'']
   \<and> isUnicodeSupported [''platform'' \<mapsto> Str ''Win32'', ''COLORTERM'' \<mapsto> Str ''no'']"
proof -
  have absent: "(Map.empty :: env) ''platform'' = None"
    by simp
  have undef: "[''platform'' \<mapsto> Undefined, ''LANG'' \<mapsto> Str ''C''] ''platform''
      = Some Undefined"
    by simp
  have other: "\<exists>s. [''platform'' \<mapsto> Str ''Win32'', ''COLORTERM'' \<mapsto> Str ''no''] ''platform''
      = Some (Str s) \<and> s \<noteq> ''win32''"
    by simp
  show ?thesis
    using not_windows_supported [of Map.empty] absent
      not_windows_supported [of "[''platform'' \<mapsto> Undefined, ''LANG'' \<mapsto> Str ''C'']"] undef
      not_windows_supported
        [of "[''platform'' \<mapsto> Str ''Win32'', ''COLORTERM'' \<mapsto> Str ''no'']"] other
    by blast
qed

text \<open>
  C8: for every env mapping in which \<open>platform\<close> is "win32" and none of \<open>LANG\<close>,
  \<open>COLORTERM\<close>, \<open>TERM_PROGRAM\<close> carries a supporting value, \<open>isUnicodeSupported\<close>
  returns false; so it does on the mapping whose only key is \<open>platform: "win32"\<close>.
\<close>

theorem windows_without_support:
  assumes "env ''platform'' = Some (Str ''win32'')"
    and "\<not> declares_utf8 env"
    and "\<not> colorterm_modern env"
    and "\<not> term_program_modern env"
  shows "\<not> isUnicodeSupported env"
  using assms
  by (simp add: isUnicodeSupported_conditions reported_windows_def read_key_def)

theorem windows_without_support_witness:
  "\<not> isUnicodeSupported [''platform'' \<mapsto> Str ''win32'']"
proof -
  have p: "[''platform'' \<mapsto> Str ''win32''] ''platform'' = Some (Str ''win32'')"
    by simp
  have l: "\<not> declares_utf8 [''platform'' \<mapsto> Str ''win32'']"
    by (simp add: declares_utf8_def read_key_def toLowerCase_def)
  have c: "\<not> colorterm_modern [''platform'' \<mapsto> Str ''win32'']"
    by (simp add: colorterm_modern_def read_key_def)
  have t: "\<not> term_program_modern [''platform'' \<mapsto> Str ''win32'']"
    by (simp add: term_program_modern_def read_key_def)
  show ?thesis
    by (rule windows_without_support [OF p l c t])
qed

text \<open>
  C9: two env mappings that agree on the four keys \<open>LANG\<close>, \<open>COLORTERM\<close>,
  \<open>TERM_PROGRAM\<close> and \<open>platform\<close> (absence included) get the same answer from
  \<open>isUnicodeSupported\<close>: no other key influences the result.
\<close>

theorem only_four_keys:
  assumes "\<forall>k \<in> {''LANG'', ''COLORTERM'', ''TERM_PROGRAM'', ''platform''}. a k = b k"
  shows "isUnicodeSupported a = isUnicodeSupported b"
proof (rule isUnicodeSupported_read_key)
  show "read_key a ''LANG'' = read_key b ''LANG''"
    using assms by (simp add: read_key_def)
  show "read_key a ''COLORTERM'' = read_key b ''COLORTERM''"
    using assms by (simp add: read_key_def)
  show "read_key a ''TERM_PROGRAM'' = read_key b ''TERM_PROGRAM''"
    using assms by (simp add: read_key_def)
  show "read_key a ''platform'' = read_key b ''platform''"
    using assms by (simp add: read_key_def)
qed

theorem only_four_keys_witness:
  "isUnicodeSupported [''platform'' \<mapsto> Str ''win32'', ''TERM'' \<mapsto> Str ''utf-8'']
   = isUnicodeSupported [''platform'' \<mapsto> Str ''win32'', ''HOME'' \<mapsto> Undefined]"
proof -
  have agree: "\<forall>k \<in> {''LANG'', ''COLORTERM'', ''TERM_PROGRAM'', ''platform''}.
      [''platform'' \<mapsto> Str ''win32'', ''TERM'' \<mapsto> Str ''utf-8''] k
      = [''platform'' \<mapsto> Str ''win32'', ''HOME'' \<mapsto> Undefined] k"
    by simp
  show ?thesis
    by (rule only_four_keys [OF agree])
qed

text \<open>
  C10: for every env mapping and each of the four consulted keys, binding the key to
  the empty string or to \<open>undefined\<close> gives the same \<open>isUnicodeSupported\<close> result
  as leaving the key out.
\<close>

theorem blank_is_absent:
  assumes "k \<in> {''LANG'', ''COLORTERM'', ''TERM_PROGRAM'', ''platform''}"
  shows "isUnicodeSupported (env(k \<mapsto> Str [])) = isUnicodeSupported (env(k := None))
       \<and> isUnicodeSupported (env(k \<mapsto> Undefined)) = isUnicodeSupported (env(k := None))"
  by (intro conjI isUnicodeSupported_read_key read_key_blank)

theorem blank_is_absent_witness:
  "isUnicodeSupported ([''platform'' \<mapsto> Str ''win32''](''platform'' \<mapsto> Str []))
     = isUnicodeSupported ([''platform'' \<mapsto> Str ''win32''](''platform'' := None))
   \<and> isUnicodeSupported ([''platform'' \<mapsto> Str ''win32''](''platform'' \<mapsto> Undefined))
     = isUnicodeSupported ([''platform'' \<mapsto> Str ''win32''](''platform'' := None))"
proof -
  have key: "''platform'' \<in> {''LANG'', ''COLORTERM'', ''TERM_PROGRAM'', ''platform''}"
    by simp
  show ?thesis
    by (rule blank_is_absent [OF key])
qed

section \<open>The theme\<close>

text \<open>
  C2: for each of the four variants, the theme's \<open>icon\<close> style function applied to
  \<open>{variant}\<close> returns exactly the record \<open>{color: c}\<close>, with \<open>c\<close> blue for info,
  green for success, red for error and yellow for warning: one field, that value.
\<close>

theorem icon_style_by_variant:
  "icon (styles statusMessageTheme) \<lparr>StatusMessageThemeProps.variant = Info\<rparr>
     = [(''color'', PStr ''blue'')]
   \<and> icon (styles statusMessageTheme) \<lparr>StatusMessageThemeProps.variant = Success\<rparr>
     = [(''color'', PStr ''green'')]
   \<and> icon (styles statusMessageTheme) \<lparr>StatusMessageThemeProps.variant = Error\<rparr>
     = [(''color'', PStr ''red'')]
   \<and> icon (styles statusMessageTheme) \<lparr>StatusMessageThemeProps.variant = Warning\<rparr>
     = [(''color'', PStr ''yellow'')]"
  by (simp add: statusMessageTheme_def)

text \<open>
  C5: the theme's \<open>container\<close> always returns exactly \<open>{columnGap: 1}\<close>,
  \<open>iconContainer\<close> exactly \<open>{flexShrink: 0}\<close> and \<open>message\<close> exactly the empty
  record; called with any variant or with none (\<open>a\<close> and \<open>b\<close> below), each gives
  the same output.
\<close>

theorem fixed_style_slots:
  "container (styles statusMessageTheme) a = [(''columnGap'', PNum 1)]
   \<and> iconContainer (styles statusMessageTheme) a = [(''flexShrink'', PNum 0)]
   \<and> message (styles statusMessageTheme) a = []
   \<and> container (styles statusMessageTheme) a = container (styles statusMessageTheme) b
   \<and> iconContainer (styles statusMessageTheme) a
     = iconContainer (styles statusMessageTheme) b
   \<and> message (styles statusMessageTheme) a = message (styles statusMessageTheme) b"
  by (simp add: statusMessageTheme_def)

section \<open>The component\<close>

text \<open>
  C3: for every variant and every content, the empty string included,
  \<open>StatusMessage\<close> emits exactly an outer container with the \<open>container()\<close> styles,
  whose first child is a non-shrinking inner container with the \<open>iconContainer()\<close>
  styles around a text node holding the selected icon with the \<open>icon({variant})\<close>
  styles, and whose second child is a text node holding the content as it is with the
  \<open>message()\<close> styles; in traversal order the icon comes first, and it is there when
  the content is empty.
\<close>

theorem StatusMessage_emits:
  "StatusMessage figs statusMessageTheme \<lparr>children = content, variant = v\<rparr> =
     Box (container (styles statusMessageTheme) None)
       [Box (iconContainer (styles statusMessageTheme) None)
          [Text (icon (styles statusMessageTheme) \<lparr>StatusMessageThemeProps.variant = v\<rparr>)
             [RStr (iconByVariant figs v)]],
        Text (message (styles statusMessageTheme) None) [content]]
   \<and> StatusMessage figs statusMessageTheme \<lparr>children = content, variant = v\<rparr> =
     Box [(''columnGap'', PNum 1)]
       [Box [(''flexShrink'', PNum 0)]
          [Text [(''color'', PStr (colorByVariant v))] [RStr (iconByVariant figs v)]],
        Text [] [content]]
   \<and> leaves (StatusMessage figs statusMessageTheme \<lparr>children = content, variant = v\<rparr>) =
     iconByVariant figs v # leaves content"
  by (simp add: StatusMessage_tree) (simp add: statusMessageTheme_def)

theorem StatusMessage_emits_witness:
  "StatusMessage \<lparr>info = ''i'', tick = ''v'', cross = ''x'', warning = ''!!''\<rparr>
     statusMessageTheme \<lparr>children = RStr [], variant = Success\<rparr> =
     Box [(''columnGap'', PNum 1)]
       [Box [(''flexShrink'', PNum 0)] [Text [(''color'', PStr ''green'')] [RStr ''v'']],
        Text [] [RStr []]]
   \<and> leaves (StatusMessage \<lparr>info = ''i'', tick = ''v'', cross = ''x'', warning = ''!!''\<rparr>
       statusMessageTheme \<lparr>children = RStr [], variant = Success\<rparr>) = [''v'', []]"
  using StatusMessage_emits
    [of "\<lparr>info = ''i'', tick = ''v'', cross = ''x'', warning = ''!!''\<rparr>" "RStr []" Success]
  by (simp add: statusMessageTheme_def)

text \<open>
  C4: for every variant and every injected symbol set with the four symbols
  \<open>info\<close>, \<open>tick\<close>, \<open>cross\<close> and \<open>warning\<close>, \<open>StatusMessage\<close> selects its icon
  by info to \<open>symbols.info\<close>, success to \<open>symbols.tick\<close>, error to
  \<open>symbols.cross\<close>, warning to \<open>symbols.warning\<close>, and what it renders holds
  that icon and the given content, under whatever theme is in force.
\<close>

theorem StatusMessage_icon_and_content:
  "leaves (StatusMessage figs th \<lparr>children = content, variant = Info\<rparr>)
     = info figs # leaves content
   \<and> leaves (StatusMessage figs th \<lparr>children = content, variant = Success\<rparr>)
     = tick figs # leaves content
   \<and> leaves (StatusMessage figs th \<lparr>children = content, variant = Error\<rparr>)
     = cross figs # leaves content
   \<and> leaves (StatusMessage figs th \<lparr>children = content, variant = Warning\<rparr>)
     = warning figs # leaves content
   \<and> iconByVariant figs v
     \<in> set (leaves (StatusMessage figs th \<lparr>children = content, variant = v\<rparr>))
   \<and> set (leaves content)
     \<subseteq> set (leaves (StatusMessage figs th \<lparr>children = content, variant = v\<rparr>))"
  by (simp add: StatusMessage_tree) auto

theorem StatusMessage_icon_and_content_witness:
  "leaves (StatusMessage \<lparr>info = ''i'', tick = ''v'', cross = ''x'', warning = ''!!''\<rparr>
       statusMessageTheme \<lparr>children = RStr ''Error'', variant = Error\<rparr>)
     = [''x'', ''Error'']
   \<and> ''x'' \<in> set (leaves (StatusMessage
       \<lparr>info = ''i'', tick = ''v'', cross = ''x'', warning = ''!!''\<rparr>
       statusMessageTheme \<lparr>children = RStr ''Error'', variant = Error\<rparr>))
   \<and> ''Error'' \<in> set (leaves (StatusMessage
       \<lparr>info = ''i'', tick = ''v'', cross = ''x'', warning = ''!!''\<rparr>
       statusMessageTheme \<lparr>children = RStr ''Error'', variant = Error\<rparr>))"
  using StatusMessage_icon_and_content
    [of "\<lparr>info = ''i'', tick = ''v'', cross = ''x'', warning = ''!!''\<rparr>"
        statusMessageTheme "RStr ''Error''" Error]
  by simp

end
